theory Spec2Isabelle
  imports Complex_Main "HOL-Library.AList"
begin

section \<open>JavaScript values and the API client\<close>

text \<open>
  The client is a set of React components. Component state is a record, an event
  handler is a function from the state it closes over (and the way its awaited request
  settles) to the state after it, the requests it issued and the console lines it wrote.
  A handler runs to its end before the next event is taken.
  Server data reaches the client as parsed JSON, so a field read from it is a
  \<open>jsval\<close>: it may be missing (\<open>JUndefined\<close>), \<open>null\<close>, or of any primitive type.
\<close>

datatype jsval = JUndefined | JNull | JBool bool | JNum int | JStr string

text \<open>JavaScript truthiness, as \<open>!x\<close>, \<open>x || y\<close> and \<open>if (x)\<close> read it.\<close>

fun truthy :: "jsval \<Rightarrow> bool" where
  "truthy JUndefined = False"
| "truthy JNull = False"
| "truthy (JBool b) = b"
| "truthy (JNum n) = (n \<noteq> 0)"
| "truthy (JStr s) = (s \<noteq> [])"

definition js_or :: "jsval \<Rightarrow> jsval \<Rightarrow> jsval" where
  "js_or a b = (if truthy a then a else b)"

text \<open>State that is \<open>null\<close> or a number, and state that is \<open>null\<close> or a string.\<close>

definition truthy_num :: "int option \<Rightarrow> bool" where
  "truthy_num u = (case u of None \<Rightarrow> False | Some n \<Rightarrow> n \<noteq> 0)"

definition truthy_str :: "string option \<Rightarrow> bool" where
  "truthy_str t = (case t of None \<Rightarrow> False | Some s \<Rightarrow> s \<noteq> [])"

text \<open>
  \<open>String.prototype.trim\<close> removes white space and line terminators from both ends. A
  \<open>char\<close> stands for a code unit below 256; of these TAB, LF, VT, FF, CR, SPACE and the
  no-break space U+00A0 are removed.
\<close>

definition is_js_space :: "char \<Rightarrow> bool" where
  "is_js_space c =
     (c \<in> set [CHR 0x09, CHR 0x0A, CHR 0x0B, CHR 0x0C, CHR 0x0D, CHR 0x20, CHR 0xA0])"

definition js_trim :: "string \<Rightarrow> string" where
  "js_trim s = rev (dropWhile is_js_space (rev (dropWhile is_js_space s)))"

text \<open>
  \<open>lib/api.js\<close>: \<open>api.get\<close>, \<open>api.post\<close> and \<open>api.put\<close> return a promise that resolves
  with the parsed JSON of the response or rejects with an \<open>Error\<close>; \<open>Rejected m\<close>
  carries its \<open>message\<close>.
\<close>

datatype 'a settled = Resolved 'a | Rejected string

record feedback_body =
  fb_query :: string
  fb_usefulness :: "int option"
  fb_tone_alignment :: "string option"
  fb_outcome :: "string option"

datatype payload =
    Feedback_payload feedback_body
  | Decision_payload string "(string \<times> real) list"
  | Preferences_payload string bool

text \<open>A request is its method, its path and its JSON body.\<close>

datatype request = Request string string "payload option"

datatype completion = Returned | Threw string

text \<open>What one run of an event handler did.\<close>

record 's run =
  final :: 's
  sent :: "request list"
  warned :: "(string \<times> string) list"
  completed :: completion

section \<open>FeedbackPanel\<close>

text \<open>
  The component's \<open>useState\<close> cells. \<open>usefulness\<close> is \<open>null\<close> or the number of the
  rating button clicked, \<open>toneAlignment\<close> is \<open>null\<close> or the \<open>value\<close> of the tone
  button clicked.
\<close>

record feedback_state =
  usefulness :: "int option"
  toneAlignment :: "string option"
  submitted :: bool
  submitting :: bool
  dismissed :: bool

definition feedback_initial :: feedback_state where
  "feedback_initial =
     \<lparr>usefulness = None, toneAlignment = None, submitted = False, submitting = False,
      dismissed = False\<rparr>"

definition FEEDBACK_TONE_OPTIONS :: "(string \<times> string) list" where
  "FEEDBACK_TONE_OPTIONS =
     [(''too_soft'', ''Too Soft''), (''just_right'', ''Just Right''), (''too_harsh'', ''Too Harsh'')]"

definition rating_buttons :: "int list" where
  "rating_buttons = [1, 2, 3, 4, 5, 6, 7, 8, 9, 10]"

text \<open>
  \<open>usefulness && usefulness >= 6 ? 'helped' : usefulness ? 'didnt_help' : null\<close>
\<close>

definition outcome_of :: "int option \<Rightarrow> string option" where
  "outcome_of u =
     (if truthy_num u \<and> (case u of None \<Rightarrow> False | Some n \<Rightarrow> 6 \<le> n) then Some ''helped''
      else if truthy_num u then Some ''didnt_help''
      else None)"

definition feedback_request :: "string \<Rightarrow> feedback_state \<Rightarrow> request" where
  "feedback_request q st =
     Request ''POST'' ''/feedback''
       (Some (Feedback_payload
          \<lparr>fb_query = q, fb_usefulness = usefulness st,
           fb_tone_alignment = toneAlignment st, fb_outcome = outcome_of (usefulness st)\<rparr>))"

text \<open>
  \<open>handleSubmit\<close> of the panel. \<open>reply\<close> is how the awaited \<open>api.post\<close> settles. The
  \<open>catch\<close> block warns on the console and sets \<open>submitted\<close> all the same; the
  \<open>finally\<close> block clears \<open>submitting\<close>; nothing is rethrown.
\<close>

definition feedback_handleSubmit ::
  "string \<Rightarrow> feedback_state \<Rightarrow> unit settled \<Rightarrow> feedback_state run" where
  "feedback_handleSubmit q st reply =
     (if \<not> truthy_num (usefulness st) \<and> \<not> truthy_str (toneAlignment st)
      then \<lparr>final = st, sent = [], warned = [], completed = Returned\<rparr>
      else
        (case reply of
           Resolved _ \<Rightarrow>
             \<lparr>final = st\<lparr>submitting := True\<rparr>\<lparr>submitted := True\<rparr>\<lparr>submitting := False\<rparr>,
              sent = [feedback_request q st], warned = [], completed = Returned\<rparr>
         | Rejected m \<Rightarrow>
             \<lparr>final = st\<lparr>submitting := True\<rparr>\<lparr>submitted := True\<rparr>\<lparr>submitting := False\<rparr>,
              sent = [feedback_request q st],
              warned = [(''Feedback submission failed:'', m)], completed = Returned\<rparr>))"

text \<open>The \<open>disabled\<close> attribute of the submit button.\<close>

definition feedback_submit_disabled :: "feedback_state \<Rightarrow> bool" where
  "feedback_submit_disabled st =
     (submitting st \<or> (\<not> truthy_num (usefulness st) \<and> \<not> truthy_str (toneAlignment st)))"

text \<open>The component renders nothing once it is dismissed or submitted.\<close>

definition feedback_rendered :: "feedback_state \<Rightarrow> bool" where
  "feedback_rendered st = (\<not> (dismissed st \<or> submitted st))"

text \<open>
  The states the panel can be in: the initial one, and those its buttons lead to. A
  rating button sets \<open>usefulness\<close> to its own number, a tone button sets
  \<open>toneAlignment\<close> to its option's \<open>value\<close>.
\<close>

inductive feedback_reachable :: "feedback_state \<Rightarrow> bool" where
  fr_initial: "feedback_reachable feedback_initial"
| fr_rate: "feedback_reachable st \<Longrightarrow> n \<in> set rating_buttons \<Longrightarrow>
     feedback_reachable (st\<lparr>usefulness := Some n\<rparr>)"
| fr_tone: "feedback_reachable st \<Longrightarrow> v \<in> set (map fst FEEDBACK_TONE_OPTIONS) \<Longrightarrow>
     feedback_reachable (st\<lparr>toneAlignment := Some v\<rparr>)"
| fr_dismiss: "feedback_reachable st \<Longrightarrow> feedback_reachable (st\<lparr>dismissed := True\<rparr>)"
| fr_submit: "feedback_reachable st \<Longrightarrow>
     feedback_reachable (final (feedback_handleSubmit q st reply))"

section \<open>Home (the main page)\<close>

text \<open>
  The parsed bodies the page reads: \<open>result.final_decision\<close> and
  \<open>result.agent_outputs[agent.key]\<close> of a decision (its \<open>explanation\<close> is handed to
  \<open>ExplanationPanel\<close> unread and is left out), \<open>data.tone_preference\<close> of the stored
  preferences, \<open>result.conflict\<close> and \<open>result.message\<close> of a preference update.
\<close>

record decision_data =
  final_decision :: string
  agent_outputs :: "(string \<times> string) list"

record preferences_data =
  tone_preference :: jsval

record put_result =
  conflict :: jsval
  message :: jsval

definition agentConfig :: "(string \<times> string) list" where
  "agentConfig =
     [(''ethical'', ''Ethical''), (''risk'', ''Risk & Logic''), (''eq'', ''EQ''),
      (''values'', ''Value Alignment''), (''red_team'', ''Red Team'')]"

definition TONE_OPTIONS :: "(string \<times> string) list" where
  "TONE_OPTIONS =
     [(''clean'', ''Clean''), (''casual'', ''Casual''), (''blunt'', ''Blunt''),
      (''blunt_profane'', ''Unfiltered'')]"

text \<open>
  The \<open>useState\<close> cells of \<open>Home\<close>. \<open>weights\<close> is an object: an association list in
  insertion order, which is the order \<open>JSON.stringify\<close> writes it in.
\<close>

record home_state =
  query :: string
  weights :: "(string \<times> real) list"
  loading :: bool
  result :: "decision_data option"
  error :: "string option"
  currentTone :: jsval
  toneSaving :: bool
  showProfanityWarning :: bool

definition home_initial :: home_state where
  "home_initial =
     \<lparr>query = [],
      weights = [(''ethical'', 0.2), (''risk'', 0.2), (''eq'', 0.2), (''values'', 0.2),
                 (''red_team'', 0.2)],
      loading = False, result = None, error = None, currentTone = JStr ''clean'',
      toneSaving = False, showProfanityWarning = False\<rparr>"

text \<open>
  The effect that fetches the tone on mount and whenever \<open>user\<close> changes:
  \<open>.then(data => setCurrentTone(data.tone_preference || 'clean')).catch(() => { })\<close>.
\<close>

definition home_fetch_tone :: "bool \<Rightarrow> home_state \<Rightarrow> preferences_data settled \<Rightarrow> home_state run" where
  "home_fetch_tone user st reply =
     (if \<not> user then \<lparr>final = st, sent = [], warned = [], completed = Returned\<rparr>
      else
        (case reply of
           Resolved data \<Rightarrow>
             \<lparr>final = st\<lparr>currentTone := js_or (tone_preference data) (JStr ''clean'')\<rparr>,
              sent = [Request ''GET'' ''/preferences'' None], warned = [],
              completed = Returned\<rparr>
         | Rejected m \<Rightarrow>
             \<lparr>final = st, sent = [Request ''GET'' ''/preferences'' None], warned = [],
              completed = Returned\<rparr>))"

text \<open>\<open>handleSubmit\<close> of the page: \<open>if (!query.trim()) return\<close>, then the request.\<close>

definition home_handleSubmit :: "home_state \<Rightarrow> decision_data settled \<Rightarrow> home_state run" where
  "home_handleSubmit st reply =
     (if js_trim (query st) = [] then \<lparr>final = st, sent = [], warned = [], completed = Returned\<rparr>
      else
        (case reply of
           Resolved data \<Rightarrow>
             \<lparr>final = st\<lparr>loading := True, error := None, result := None\<rparr>
                        \<lparr>result := Some data\<rparr>\<lparr>loading := False\<rparr>,
              sent = [Request ''POST'' ''/decision''
                        (Some (Decision_payload (js_trim (query st)) (weights st)))],
              warned = [], completed = Returned\<rparr>
         | Rejected m \<Rightarrow>
             \<lparr>final = st\<lparr>loading := True, error := None, result := None\<rparr>
                        \<lparr>error := Some m\<rparr>\<lparr>loading := False\<rparr>,
              sent = [Request ''POST'' ''/decision''
                        (Some (Decision_payload (js_trim (query st)) (weights st)))],
              warned = [], completed = Returned\<rparr>))"

text \<open>The \<open>disabled\<close> attribute of the submit button.\<close>

definition home_submit_disabled :: "home_state \<Rightarrow> bool" where
  "home_submit_disabled st = (loading st \<or> js_trim (query st) = [])"

text \<open>\<open>setWeights(prev => ({ ...prev, [key]: value }))\<close>\<close>

definition updateWeight :: "string \<Rightarrow> real \<Rightarrow> home_state \<Rightarrow> home_state" where
  "updateWeight key v st = st\<lparr>weights := AList.update key v (weights st)\<rparr>"

text \<open>\<open>saveTone\<close> of the page always sends \<open>confirm_contradiction: true\<close> and does not
  read the body of the reply.\<close>

definition home_saveTone :: "string \<Rightarrow> home_state \<Rightarrow> put_result settled \<Rightarrow> home_state run" where
  "home_saveTone newTone st reply =
     (case reply of
        Resolved r \<Rightarrow>
          \<lparr>final = st\<lparr>toneSaving := True\<rparr>
                     \<lparr>currentTone := JStr newTone, showProfanityWarning := False\<rparr>
                     \<lparr>toneSaving := False\<rparr>,
           sent = [Request ''PUT'' ''/preferences'' (Some (Preferences_payload newTone True))],
           warned = [], completed = Returned\<rparr>
      | Rejected m \<Rightarrow>
          \<lparr>final = st\<lparr>toneSaving := True\<rparr>\<lparr>toneSaving := False\<rparr>,
           sent = [Request ''PUT'' ''/preferences'' (Some (Preferences_payload newTone True))],
           warned = [(''Failed to save tone:'', m)], completed = Returned\<rparr>)"

definition home_handleToneSelect :: "string \<Rightarrow> home_state \<Rightarrow> put_result settled \<Rightarrow> home_state run" where
  "home_handleToneSelect newTone st reply =
     (if newTone = ''blunt_profane'' \<and> currentTone st \<noteq> JStr ''blunt_profane''
      then \<lparr>final = st\<lparr>showProfanityWarning := True\<rparr>, sent = [], warned = [],
            completed = Returned\<rparr>
      else home_saveTone newTone st reply)"

text \<open>
  What the user can do on the page: type, move the slider of one of the configured
  agents, press submit, click one of the tone buttons, and press one of the two buttons
  of the profanity warning; and the tone fetch settling.
\<close>

datatype home_event =
    Type_query string
  | Slide string real
  | Submit "decision_data settled"
  | Select_tone string "put_result settled"
  | Confirm_profanity "put_result settled"
  | Cancel_profanity
  | Tone_fetched bool "preferences_data settled"

definition silent :: "'s \<Rightarrow> 's run" where
  "silent st = \<lparr>final = st, sent = [], warned = [], completed = Returned\<rparr>"

fun home_step :: "home_state \<Rightarrow> home_event \<Rightarrow> home_state run" where
  "home_step st (Type_query s) = silent (st\<lparr>query := s\<rparr>)"
| "home_step st (Slide key v) = silent (updateWeight key v st)"
| "home_step st (Submit reply) = home_handleSubmit st reply"
| "home_step st (Select_tone t reply) = home_handleToneSelect t st reply"
| "home_step st (Confirm_profanity reply) = home_saveTone ''blunt_profane'' st reply"
| "home_step st Cancel_profanity = silent (st\<lparr>showProfanityWarning := False\<rparr>)"
| "home_step st (Tone_fetched user reply) = home_fetch_tone user st reply"

text \<open>
  Which events the rendered page offers: a slider exists for each entry of
  \<open>agentConfig\<close>, a tone button for each entry of \<open>TONE_OPTIONS\<close> (disabled while a save
  is in flight), and the warning's buttons only while the warning is shown. The range
  of the value a slider reports is that of \<open>WeightSlider\<close>, a parameter here.
\<close>

fun home_offers :: "(real \<Rightarrow> bool) \<Rightarrow> home_state \<Rightarrow> home_event \<Rightarrow> bool" where
  "home_offers slider st (Type_query s) = (\<not> loading st)"
| "home_offers slider st (Slide key v) = (key \<in> set (map fst agentConfig) \<and> slider v)"
| "home_offers slider st (Submit reply) = (\<not> home_submit_disabled st)"
| "home_offers slider st (Select_tone t reply) =
     (t \<in> set (map fst TONE_OPTIONS) \<and> \<not> toneSaving st)"
| "home_offers slider st (Confirm_profanity reply) =
     (showProfanityWarning st \<and> \<not> toneSaving st)"
| "home_offers slider st Cancel_profanity = showProfanityWarning st"
| "home_offers slider st (Tone_fetched user reply) = True"

inductive home_reachable :: "(real \<Rightarrow> bool) \<Rightarrow> home_state \<Rightarrow> bool" for slider where
  hr_initial: "home_reachable slider home_initial"
| hr_step: "home_reachable slider st \<Longrightarrow> home_offers slider st e \<Longrightarrow>
     home_reachable slider (final (home_step st e))"

section \<open>The API client and the page around the feedback panel\<close>

text \<open>
  \<open>request\<close> of \<open>lib/api.js\<close>, which \<open>api.get\<close>, \<open>api.post\<close> and \<open>api.put\<close> call. An
  exchange with the server ends with no response (\<open>getToken\<close> or \<open>fetch\<close> rejected, with
  that error's message) or with a response: its status and its body. A body that parses
  is \<open>Json_body detail v\<close>: \<open>detail\<close> is \<open>Some s\<close> when its \<open>detail\<close> field is truthy and
  \<open>s\<close> is that field as a string, and \<open>v\<close> is the value the caller reads; for a body
  that does not parse, \<open>response.json()\<close> rejects with a message.
\<close>

datatype 'a http_body = Json_body "string option" 'a | Not_json string

datatype 'a exchange = No_response string | Response nat "'a http_body"

text \<open>
  What \<open>request\<close> can change outside React: the Supabase session, which
  \<open>supabase.auth.signOut()\<close> ends, and \<open>window.location.href\<close>.
\<close>

record browser =
  session_token :: "string option"
  location_href :: string

text \<open>The decimal digits of \<open>response.status\<close> in the template string.\<close>

fun status_text :: "nat \<Rightarrow> string" where
  "status_text n =
     (if n div 10 = 0 then [] else status_text (n div 10)) @ [''0123456789'' ! (n mod 10)]"

text \<open>
  Status 401 signs the user out, redirects to \<open>/login\<close> and throws; any other status
  outside 200..299 throws \<open>errorData.detail || `API error: ${response.status}`\<close>, where
  \<open>errorData\<close> is \<open>{}\<close> for a body that does not parse; otherwise the parsed body is
  returned.
\<close>

definition api_request :: "'a exchange \<Rightarrow> browser \<Rightarrow> 'a settled \<times> browser" where
  "api_request x w =
     (case x of
        No_response m \<Rightarrow> (Rejected m, w)
      | Response status body \<Rightarrow>
          if status = 401
          then (Rejected ''Session expired. Please sign in again.'',
                w\<lparr>session_token := None, location_href := ''/login''\<rparr>)
          else if \<not> (200 \<le> status \<and> status \<le> 299)
          then (Rejected (case body of
                            Json_body detail v \<Rightarrow>
                              (case detail of
                                 Some d \<Rightarrow> d
                               | None \<Rightarrow> ''API error: '' @ status_text status)
                          | Not_json m \<Rightarrow> ''API error: '' @ status_text status), w)
          else (case body of
                  Json_body detail v \<Rightarrow> (Resolved v, w)
                | Not_json m \<Rightarrow> (Rejected m, w)))"

definition session_expired :: "'a exchange \<Rightarrow> bool" where
  "session_expired x = (case x of No_response m \<Rightarrow> False | Response status body \<Rightarrow> status = 401)"

text \<open>
  The page as a whole: the cells of \<open>Home\<close>, the cells of the \<open>FeedbackPanel\<close> it renders
  below a result, the \<open>user\<close> and \<open>loading\<close> that \<open>useAuth()\<close> hands to \<open>Home\<close>, and the
  browser. \<open>AuthContext\<close> itself is not among the sources, so nothing here says when it
  clears \<open>user\<close> after a sign-out.
\<close>

record page_state =
  home :: home_state
  panel :: feedback_state
  auth_user :: "string option"
  auth_loading :: bool
  window :: browser

text \<open>
  When the decision is on screen: the browser is on the page's route, \<open>Home\<close> is past
  its early return \<open>if (authLoading || !user)\<close>, and \<open>result && !loading\<close> holds.
\<close>

definition result_displayed :: "page_state \<Rightarrow> bool" where
  "result_displayed pg =
     (location_href (window pg) = ''/'' \<and>
      \<not> (auth_loading pg \<or> auth_user pg = None) \<and>
      result (home pg) \<noteq> None \<and> \<not> loading (home pg))"

text \<open>
  A click on the panel's submit button, seen from the page. The panel's \<open>handleSubmit\<close>
  gets \<open>query\<close> as its only prop; its \<open>api.post\<close> runs \<open>request\<close>, whose effects on the
  browser happen only when the handler got as far as the call.
\<close>

definition page_feedback_submit :: "page_state \<Rightarrow> unit exchange \<Rightarrow> page_state run" where
  "page_feedback_submit pg x =
     (let a = api_request x (window pg);
          r = feedback_handleSubmit (query (home pg)) (panel pg) (fst a)
      in \<lparr>final = pg\<lparr>panel := final r,
                       window := (if sent r = [] then window pg else snd a)\<rparr>,
          sent = sent r, warned = warned r, completed = completed r\<rparr>)"

section \<open>PreferencesModal\<close>

definition TONES :: "(string \<times> string) list" where
  "TONES =
     [(''clean'', ''Clean''), (''casual'', ''Casual''), (''blunt'', ''Blunt''),
      (''blunt_profane'', ''Blunt + Profanity'')]"

text \<open>
  The \<open>useState\<close> cells of the modal. \<open>error\<close> is \<open>null\<close>, an \<open>err.message\<close> or the
  \<open>message\<close> field of a conflict reply, whatever that field holds.
\<close>

record modal_state =
  tone :: jsval
  modal_loading :: bool
  saving :: bool
  modal_error :: jsval
  modal_showProfanityWarning :: bool
  saved :: bool

definition modal_initial :: modal_state where
  "modal_initial =
     \<lparr>tone = JStr ''clean'', modal_loading = False, saving = False, modal_error = JNull,
      modal_showProfanityWarning = False, saved = False\<rparr>"

text \<open>The effect that runs whenever \<open>isOpen\<close> changes.\<close>

definition modal_fetch_tone :: "bool \<Rightarrow> modal_state \<Rightarrow> preferences_data settled \<Rightarrow> modal_state run" where
  "modal_fetch_tone isOpen st reply =
     (if \<not> isOpen then silent st
      else
        (case reply of
           Resolved data \<Rightarrow>
             \<lparr>final = st\<lparr>modal_loading := True, modal_error := JNull, saved := False\<rparr>
                        \<lparr>tone := js_or (tone_preference data) (JStr ''clean'')\<rparr>
                        \<lparr>modal_loading := False\<rparr>,
              sent = [Request ''GET'' ''/preferences'' None], warned = [],
              completed = Returned\<rparr>
         | Rejected m \<Rightarrow>
             \<lparr>final = st\<lparr>modal_loading := True, modal_error := JNull, saved := False\<rparr>
                        \<lparr>modal_error := JStr m\<rparr>
                        \<lparr>modal_loading := False\<rparr>,
              sent = [Request ''GET'' ''/preferences'' None], warned = [],
              completed = Returned\<rparr>))"

text \<open>
  \<open>saveTone(newTone, confirmContradiction)\<close> of the modal. A reply whose \<open>conflict\<close> is
  truthy shows its \<open>message\<close> and returns before \<open>setTone\<close>; the \<open>finally\<close> block runs on
  every path. The timer that clears \<open>saved\<close> two seconds after a save is the separate
  event \<open>modal_saved_timeout\<close>.
\<close>

definition modal_saveTone ::
  "string \<Rightarrow> bool \<Rightarrow> modal_state \<Rightarrow> put_result settled \<Rightarrow> modal_state run" where
  "modal_saveTone newTone confirmContradiction st reply =
     (case reply of
        Resolved r \<Rightarrow>
          (if truthy (conflict r)
           then
             \<lparr>final = st\<lparr>saving := True, modal_error := JNull, saved := False\<rparr>
                        \<lparr>modal_error := message r\<rparr>\<lparr>saving := False\<rparr>,
              sent = [Request ''PUT'' ''/preferences''
                        (Some (Preferences_payload newTone confirmContradiction))],
              warned = [], completed = Returned\<rparr>
           else
             \<lparr>final = st\<lparr>saving := True, modal_error := JNull, saved := False\<rparr>
                        \<lparr>tone := JStr newTone, saved := True,
                         modal_showProfanityWarning := False\<rparr>\<lparr>saving := False\<rparr>,
              sent = [Request ''PUT'' ''/preferences''
                        (Some (Preferences_payload newTone confirmContradiction))],
              warned = [], completed = Returned\<rparr>)
      | Rejected m \<Rightarrow>
          \<lparr>final = st\<lparr>saving := True, modal_error := JNull, saved := False\<rparr>
                     \<lparr>modal_error := JStr m\<rparr>\<lparr>saving := False\<rparr>,
           sent = [Request ''PUT'' ''/preferences''
                     (Some (Preferences_payload newTone confirmContradiction))],
           warned = [], completed = Returned\<rparr>)"

definition modal_saved_timeout :: "modal_state \<Rightarrow> modal_state" where
  "modal_saved_timeout st = st\<lparr>saved := False\<rparr>"

definition modal_handleToneSelect ::
  "string \<Rightarrow> modal_state \<Rightarrow> put_result settled \<Rightarrow> modal_state run" where
  "modal_handleToneSelect newTone st reply =
     (if newTone = ''blunt_profane'' \<and> tone st \<noteq> JStr ''blunt_profane''
      then silent (st\<lparr>modal_showProfanityWarning := True\<rparr>)
      else modal_saveTone newTone False st reply)"

datatype modal_event =
    Modal_opened bool "preferences_data settled"
  | Modal_select string "put_result settled"
  | Modal_confirm_profanity "put_result settled"
  | Modal_cancel_profanity
  | Modal_timer

fun modal_step :: "modal_state \<Rightarrow> modal_event \<Rightarrow> modal_state run" where
  "modal_step st (Modal_opened isOpen reply) = modal_fetch_tone isOpen st reply"
| "modal_step st (Modal_select t reply) = modal_handleToneSelect t st reply"
| "modal_step st (Modal_confirm_profanity reply) = modal_saveTone ''blunt_profane'' True st reply"
| "modal_step st Modal_cancel_profanity = silent (st\<lparr>modal_showProfanityWarning := False\<rparr>)"
| "modal_step st Modal_timer = silent (modal_saved_timeout st)"

text \<open>The request of a run that carries a given tone, with either confirmation flag.\<close>

definition saves_tone :: "string \<Rightarrow> 's run \<Rightarrow> bool" where
  "saves_tone t r =
     (Request ''PUT'' ''/preferences'' (Some (Preferences_payload t True)) \<in> set (sent r) \<or>
      Request ''PUT'' ''/preferences'' (Some (Preferences_payload t False)) \<in> set (sent r))"

section \<open>The engine behind the API\<close>

text \<open>
  The backend (\<open>memory.py\<close>, \<open>preferences.py\<close>, \<open>contradiction.py\<close>, the orchestrator)
  is not among the sources at hand; the definitions of this section follow the
  specification's wording. Floats are real numbers here, so sums are exact.
\<close>

subsection \<open>MemoryStore: decay\<close>

text \<open>Modelled from the spec: the data model's \<open>MemoryItem\<close> (the store's code is missing).\<close>

datatype category = Preference | Pattern | Outcome

record memory_item =
  item_id :: nat
  userId :: string
  item_category :: category
  content :: string
  confidence0 :: real
  createdAt :: real
  lastReinforcedAt :: real
  decayRate :: real

text \<open>
  Modelled from the spec: the data model's bounds on a \<open>MemoryItem\<close>,
  \<open>confidence \<in> [0,1]\<close> and \<open>decayRate > 0\<close>.
\<close>

definition memory_item_ok :: "memory_item \<Rightarrow> bool" where
  "memory_item_ok m = (0 \<le> confidence0 m \<and> confidence0 m \<le> 1 \<and> 0 < decayRate m)"

text \<open>
  Modelled from the spec: \<open>MemoryStore.applyDecay\<close> (the store's code is missing).
  \<open>confidence(t) = confidence\<^sub>0 \<cdot> e^(-decayRate \<cdot> (t - lastReinforcedAt))\<close>, floored at 0.
\<close>

definition applyDecay :: "memory_item \<Rightarrow> real \<Rightarrow> real" where
  "applyDecay m t = max 0 (confidence0 m * exp (- decayRate m * (t - lastReinforcedAt m)))"

subsection \<open>PreferenceStore\<close>

text \<open>
  Modelled from the spec: the data model's \<open>PreferenceRecord\<close>, the detector's verdict
  and the two answers of \<open>setPreference\<close> (the store's code is missing).
\<close>

datatype tone_value = Clean | Casual | Blunt | Blunt_profane

record preference_record =
  tonePreference :: tone_value
  updatedAt :: real
  history :: "(tone_value \<times> real) list"

record verdict =
  verdict_conflict :: bool
  verdict_message :: string

datatype set_reply = Set_success | Set_conflict string

text \<open>
  Modelled from the spec: one user's state, the preference record and the memory store
  \<open>'m\<close> (per-user state is owned by that user alone).
\<close>

record 'm user_state =
  preference :: preference_record
  memory :: 'm

text \<open>
  Modelled from the spec: \<open>PreferenceStore.set\<close> (the store's code is missing), steps 1
  to 3 in their order. The detector \<open>check\<close> and the memory upsert are parameters: the
  specification leaves the matching function open, and no claim here depends on how
  the memory item is merged.
\<close>

definition PreferenceStore_set ::
  "('m \<Rightarrow> tone_value \<Rightarrow> verdict) \<Rightarrow> (tone_value \<Rightarrow> real \<Rightarrow> 'm \<Rightarrow> 'm) \<Rightarrow> real \<Rightarrow>
   'm user_state \<Rightarrow> tone_value \<Rightarrow> bool \<Rightarrow> set_reply \<times> 'm user_state" where
  "PreferenceStore_set check upsert now st newTone confirmContradiction =
     (let v = check (memory st) newTone in
      if verdict_conflict v \<and> \<not> confirmContradiction
      then (Set_conflict (verdict_message v), st)
      else if newTone = tonePreference (preference st) then (Set_success, st)
      else
        (Set_success,
         st\<lparr>preference :=
              \<lparr>tonePreference = newTone, updatedAt = now,
               history = history (preference st) @
                 [(tonePreference (preference st), updatedAt (preference st))]\<rparr>,
            memory := upsert newTone now (memory st)\<rparr>))"

text \<open>
  Modelled from the spec: the body \<open>{conflict: true, message}\<close> of a conflict reply, as
  the client parses it.
\<close>

definition conflict_body :: "string \<Rightarrow> put_result" where
  "conflict_body msg = \<lparr>conflict = JBool True, message = JStr msg\<rparr>"

subsection \<open>AgentOrchestrator and the decision operation\<close>

text \<open>
  Modelled from the spec: the five fixed perspective keys and the weight vector over
  them (the orchestrator's code is missing).
\<close>

datatype perspective = Ethical | Risk | EQ | Values | Red_team

definition perspectives :: "perspective list" where
  "perspectives = [Ethical, Risk, EQ, Values, Red_team]"

type_synonym weight_vector = "perspective \<Rightarrow> real"

text \<open>Modelled from the spec: the vector \<open>{ethical: e, risk: r, eq: q, values: v, red_team: t}\<close>.\<close>

fun weight_vector_of :: "real \<Rightarrow> real \<Rightarrow> real \<Rightarrow> real \<Rightarrow> real \<Rightarrow> weight_vector" where
  "weight_vector_of e r q v t Ethical = e"
| "weight_vector_of e r q v t Risk = r"
| "weight_vector_of e r q v t EQ = q"
| "weight_vector_of e r q v t Values = v"
| "weight_vector_of e r q v t Red_team = t"

text \<open>
  Modelled from the spec: how the five generation calls ended, \<open>Some text\<close>, or \<open>None\<close>
  for a call that timed out or failed (\<open>unavailable\<close>); the calls that succeeded, and
  the total weight they carry.
\<close>

type_synonym agent_results = "perspective \<Rightarrow> string option"

fun agent_results_of ::
  "string option \<Rightarrow> string option \<Rightarrow> string option \<Rightarrow> string option \<Rightarrow> string option \<Rightarrow>
   agent_results" where
  "agent_results_of e r q v t Ethical = e"
| "agent_results_of e r q v t Risk = r"
| "agent_results_of e r q v t EQ = q"
| "agent_results_of e r q v t Values = v"
| "agent_results_of e r q v t Red_team = t"

definition succeeded :: "agent_results \<Rightarrow> perspective list" where
  "succeeded outs = filter (\<lambda>p. outs p \<noteq> None) perspectives"

definition surviving_total :: "weight_vector \<Rightarrow> agent_results \<Rightarrow> real" where
  "surviving_total w outs = sum_list (map w (succeeded outs))"

text \<open>
  Modelled from the spec: the orchestrator's two normalisations (its code is missing).
  Each divides by a sum of weights; where that sum is zero the quotient does not exist
  and the result is \<open>None\<close>.
\<close>

definition normalize :: "weight_vector \<Rightarrow> weight_vector option" where
  "normalize w =
     (if sum_list (map w perspectives) = 0 then None
      else Some (\<lambda>p. w p / sum_list (map w perspectives)))"

definition renormalize :: "weight_vector \<Rightarrow> agent_results \<Rightarrow> (perspective \<times> real) list option" where
  "renormalize w outs =
     (if surviving_total w outs = 0 then None
      else Some (map (\<lambda>p. (p, w p / surviving_total w outs)) (succeeded outs)))"

text \<open>Modelled from the spec: the two failures of the \<open>decision\<close> operation that matter here.\<close>

datatype failure = ValidationError | UpstreamError

text \<open>
  Modelled from the spec: a weight vector is malformed when an entry is negative (the
  data model's weight vector holds non-negative floats over the five keys).
\<close>

definition weights_malformed :: "weight_vector \<Rightarrow> bool" where
  "weights_malformed w = (\<exists>p \<in> set perspectives. w p < 0)"

text \<open>
  Modelled from the spec: what a decision hands to the synthesis step, the agent outputs
  and the renormalised weights.
\<close>

record decision_outcome =
  outputs :: agent_results
  renormalized :: "(perspective \<times> real) list option"

text \<open>
  Modelled from the spec: the \<open>decision\<close> operation up to the synthesis call (the
  backend's code is missing). It validates, dispatches one call per perspective whatever
  its weight, fails with \<open>UpstreamError\<close> when no call succeeded and otherwise
  renormalises over the calls that did.
\<close>

definition decision :: "string \<Rightarrow> weight_vector \<Rightarrow> agent_results \<Rightarrow> failure + decision_outcome" where
  "decision q w outs =
     (if q = [] \<or> weights_malformed w then Inl ValidationError
      else if succeeded outs = [] then Inl UpstreamError
      else Inr \<lparr>outputs = outs,
                renormalized =
                  (case normalize w of None \<Rightarrow> None | Some n \<Rightarrow> renormalize n outs)\<rparr>)"

text \<open>
  Modelled from the spec: the sum of the renormalised weights the synthesis step works
  with, when the request yields any.
\<close>

definition renormalized_sum :: "failure + decision_outcome \<Rightarrow> real option" where
  "renormalized_sum r =
     (case r of
        Inl e \<Rightarrow> None
      | Inr d \<Rightarrow> (case renormalized d of None \<Rightarrow> None | Some ws \<Rightarrow> Some (sum_list (map snd ws))))"

section \<open>Properties of the feedback panel\<close>

lemma feedback_handleSubmit_usefulness:
  "usefulness (final (feedback_handleSubmit q st reply)) = usefulness st"
  by (simp add: feedback_handleSubmit_def split: settled.split)

lemma feedback_reachable_usefulness:
  "feedback_reachable st \<Longrightarrow> usefulness st = None \<or> (\<exists>n. usefulness st = Some n \<and> 1 \<le> n \<and> n \<le> 10)"
proof (induction rule: feedback_reachable.induct)
  case fr_initial
  show ?case by (simp add: feedback_initial_def)
next
  case (fr_rate st n)
  then show ?case by (auto simp: rating_buttons_def)
next
  case (fr_tone st v)
  then show ?case by simp
next
  case (fr_dismiss st)
  then show ?case by simp
next
  case (fr_submit st q reply)
  then show ?case by (simp only: feedback_handleSubmit_usefulness)
qed

lemma feedback_sent_cases:
  "sent (feedback_handleSubmit q st reply) =
     (if \<not> truthy_num (usefulness st) \<and> \<not> truthy_str (toneAlignment st) then []
      else [feedback_request q st])"
  by (simp add: feedback_handleSubmit_def split: settled.split)

text \<open>
  Claim C9. In every feedback request the panel submits, \<open>outcome\<close> is a function of the
  usefulness rating alone: it is \<open>'helped'\<close> exactly when a rating is set and is at least
  6, \<open>'didnt_help'\<close> exactly when a rating is set and is below 6, and \<open>null\<close> exactly
  when no rating is set. The ratings a panel can hold are those of its ten buttons.
\<close>

theorem outcome_derived_from_usefulness:
  assumes "feedback_reachable st"
    and "Request ''POST'' ''/feedback'' (Some (Feedback_payload b))
           \<in> set (sent (feedback_handleSubmit q st reply))"
  shows "fb_usefulness b = usefulness st \<and>
         (fb_outcome b = Some ''helped'' \<longleftrightarrow> (\<exists>n. usefulness st = Some n \<and> 6 \<le> n)) \<and>
         (fb_outcome b = Some ''didnt_help'' \<longleftrightarrow> (\<exists>n. usefulness st = Some n \<and> n < 6)) \<and>
         (fb_outcome b = None \<longleftrightarrow> usefulness st = None)"
proof -
  from assms(2) have b: "b = \<lparr>fb_query = q, fb_usefulness = usefulness st,
      fb_tone_alignment = toneAlignment st, fb_outcome = outcome_of (usefulness st)\<rparr>"
    by (simp add: feedback_sent_cases feedback_request_def split: if_splits)
  have "usefulness st = None \<or> (\<exists>n. usefulness st = Some n \<and> 1 \<le> n \<and> n \<le> 10)"
    by (rule feedback_reachable_usefulness [OF assms(1)])
  then consider "usefulness st = None" | n where "usefulness st = Some n" "1 \<le> n" "n \<le> 10"
    by auto
  then show ?thesis
  proof cases
    case 1
    then show ?thesis by (simp add: b outcome_of_def truthy_num_def)
  next
    case 2
    then show ?thesis by (auto simp: b outcome_of_def truthy_num_def)
  qed
qed

theorem outcome_derived_from_usefulness_witness:
  "feedback_reachable (feedback_initial\<lparr>usefulness := Some 7\<rparr>) \<and>
   Request ''POST'' ''/feedback''
     (Some (Feedback_payload \<lparr>fb_query = ''q'', fb_usefulness = Some 7,
        fb_tone_alignment = None, fb_outcome = Some ''helped''\<rparr>))
     \<in> set (sent (feedback_handleSubmit ''q'' (feedback_initial\<lparr>usefulness := Some 7\<rparr>) (Resolved ()))) \<and>
   (\<exists>n. usefulness (feedback_initial\<lparr>usefulness := Some 7\<rparr>) = Some n \<and> 6 \<le> n)"
proof -
  have r: "feedback_reachable (feedback_initial\<lparr>usefulness := Some 7\<rparr>)"
    by (rule fr_rate [OF fr_initial]) (simp add: rating_buttons_def)
  have m: "Request ''POST'' ''/feedback''
     (Some (Feedback_payload \<lparr>fb_query = ''q'', fb_usefulness = Some 7,
        fb_tone_alignment = None, fb_outcome = Some ''helped''\<rparr>))
     \<in> set (sent (feedback_handleSubmit ''q'' (feedback_initial\<lparr>usefulness := Some 7\<rparr>) (Resolved ())))"
    by (simp add: feedback_handleSubmit_def feedback_request_def feedback_initial_def
        outcome_of_def truthy_num_def)
  from outcome_derived_from_usefulness [OF r m] show ?thesis using r m by simp
qed

subsection \<open>Feedback needs a rating or a tone choice\<close>

lemma feedback_absent_silent:
  "usefulness st = None \<Longrightarrow> toneAlignment st = None \<Longrightarrow>
     feedback_handleSubmit q st reply = silent st \<and> feedback_submit_disabled st"
  by (simp add: feedback_handleSubmit_def silent_def feedback_submit_disabled_def
      truthy_num_def truthy_str_def)

lemma feedback_sent_present:
  assumes "Request ''POST'' ''/feedback'' (Some (Feedback_payload b))
      \<in> set (sent (feedback_handleSubmit q st reply))"
  shows "fb_usefulness b \<noteq> None \<or> fb_tone_alignment b \<noteq> None"
proof -
  from assms have t: "truthy_num (usefulness st) \<or> truthy_str (toneAlignment st)"
    and b: "fb_usefulness b = usefulness st" "fb_tone_alignment b = toneAlignment st"
    by (auto simp: feedback_sent_cases feedback_request_def split: if_splits)
  from t show ?thesis
    by (auto simp: b truthy_num_def truthy_str_def split: option.splits)
qed

text \<open>
  Claim C4. With both the usefulness rating and the tone choice absent, \<open>handleSubmit\<close>
  returns at once: no \<open>/feedback\<close> request, no state change, and the submit button is
  disabled. So every \<open>/feedback\<close> body the panel sends has a usefulness rating or a tone
  alignment.
\<close>

theorem feedback_without_input_rejected:
  "(usefulness st = None \<and> toneAlignment st = None \<longrightarrow>
      feedback_handleSubmit q st reply = silent st \<and> feedback_submit_disabled st) \<and>
   (Request ''POST'' ''/feedback'' (Some (Feedback_payload b))
      \<in> set (sent (feedback_handleSubmit q st reply)) \<longrightarrow>
      fb_usefulness b \<noteq> None \<or> fb_tone_alignment b \<noteq> None)"
  using feedback_absent_silent feedback_sent_present by blast

theorem feedback_without_input_rejected_witness:
  "usefulness feedback_initial = None \<and> toneAlignment feedback_initial = None \<and>
   feedback_handleSubmit ''q'' feedback_initial (Resolved ()) = silent feedback_initial \<and>
   feedback_submit_disabled feedback_initial \<and>
   Request ''POST'' ''/feedback''
     (Some (Feedback_payload \<lparr>fb_query = ''q'', fb_usefulness = None,
        fb_tone_alignment = Some ''too_soft'', fb_outcome = None\<rparr>))
     \<in> set (sent (feedback_handleSubmit ''q''
          (feedback_initial\<lparr>toneAlignment := Some ''too_soft''\<rparr>) (Resolved ()))) \<and>
   fb_tone_alignment \<lparr>fb_query = ''q'', fb_usefulness = None,
        fb_tone_alignment = Some ''too_soft'', fb_outcome = None\<rparr> \<noteq> None"
  using feedback_without_input_rejected
      [where st = feedback_initial and q = "''q''" and reply = "Resolved ()"]
    feedback_without_input_rejected
      [where st = "feedback_initial\<lparr>toneAlignment := Some ''too_soft''\<rparr>" and q = "''q''"
         and reply = "Resolved ()"
         and b = "\<lparr>fb_query = ''q'', fb_usefulness = None,
                   fb_tone_alignment = Some ''too_soft'', fb_outcome = None\<rparr>"]
  by (simp add: feedback_initial_def feedback_handleSubmit_def feedback_request_def
      outcome_of_def truthy_num_def truthy_str_def)

subsection \<open>A failed feedback request and the page\<close>

lemma api_request_window:
  "\<not> session_expired x \<Longrightarrow> snd (api_request x w) = w"
  by (simp add: api_request_def session_expired_def
      split: exchange.splits http_body.splits option.splits)

lemma feedback_handleSubmit_rejected:
  "truthy_num (usefulness st) \<or> truthy_str (toneAlignment st) \<Longrightarrow>
     feedback_handleSubmit q st (Rejected m) =
       \<lparr>final = st\<lparr>submitted := True, submitting := False\<rparr>,
        sent = [feedback_request q st],
        warned = [(''Feedback submission failed:'', m)], completed = Returned\<rparr>"
  by (auto simp: feedback_handleSubmit_def)

lemma feedback_handleSubmit_resolved:
  "truthy_num (usefulness st) \<or> truthy_str (toneAlignment st) \<Longrightarrow>
     feedback_handleSubmit q st (Resolved u) =
       \<lparr>final = st\<lparr>submitted := True, submitting := False\<rparr>,
        sent = [feedback_request q st], warned = [], completed = Returned\<rparr>"
  by (auto simp: feedback_handleSubmit_def)

lemma page_feedback_submit_ok:
  assumes "truthy_num (usefulness (panel pg)) \<or> truthy_str (toneAlignment (panel pg))"
  shows "final (page_feedback_submit pg (Response 200 (Json_body None ())))
     = pg\<lparr>panel := (panel pg)\<lparr>submitted := True, submitting := False\<rparr>\<rparr>"
proof -
  have "api_request (Response 200 (Json_body None ())) (window pg) = (Resolved (), window pg)"
    by (simp add: api_request_def)
  then show ?thesis
    by (simp add: page_feedback_submit_def Let_def feedback_handleSubmit_resolved [OF assms])
qed

text \<open>
  Claim C5, amended. When the \<open>POST /feedback\<close> call throws for any reason but an expired
  session (status 401), \<open>handleSubmit\<close> catches the error and returns normally; the page
  keeps its state, its user and its location, so a displayed decision stays displayed;
  only the panel's \<open>submitted\<close> and \<open>submitting\<close> cells change. The failure is written to
  the console as a warning and nowhere else: the page ends in the very state a
  successful submission leaves.
\<close>

theorem feedback_failure_isolated:
  assumes "truthy_num (usefulness (panel pg)) \<or> truthy_str (toneAlignment (panel pg))"
    and "fst (api_request x (window pg)) = Rejected m"
    and "\<not> session_expired x"
  shows "completed (page_feedback_submit pg x) = Returned \<and>
         warned (page_feedback_submit pg x) = [(''Feedback submission failed:'', m)] \<and>
         final (page_feedback_submit pg x)
           = pg\<lparr>panel := (panel pg)\<lparr>submitted := True, submitting := False\<rparr>\<rparr> \<and>
         result_displayed (final (page_feedback_submit pg x)) = result_displayed pg \<and>
         final (page_feedback_submit pg x)
           = final (page_feedback_submit pg (Response 200 (Json_body None ())))"
proof -
  have w: "snd (api_request x (window pg)) = window pg"
    by (rule api_request_window [OF assms(3)])
  have r: "feedback_handleSubmit (query (home pg)) (panel pg) (fst (api_request x (window pg)))
      = \<lparr>final = (panel pg)\<lparr>submitted := True, submitting := False\<rparr>,
         sent = [feedback_request (query (home pg)) (panel pg)],
         warned = [(''Feedback submission failed:'', m)], completed = Returned\<rparr>"
    by (simp only: assms(2) feedback_handleSubmit_rejected [OF assms(1)])
  have f: "final (page_feedback_submit pg x)
           = pg\<lparr>panel := (panel pg)\<lparr>submitted := True, submitting := False\<rparr>\<rparr>"
    by (simp add: page_feedback_submit_def Let_def r w)
  have "completed (page_feedback_submit pg x) = Returned"
    and "warned (page_feedback_submit pg x) = [(''Feedback submission failed:'', m)]"
    by (simp_all add: page_feedback_submit_def Let_def r)
  moreover have "result_displayed (final (page_feedback_submit pg x)) = result_displayed pg"
    by (simp add: f result_displayed_def)
  ultimately show ?thesis
    using f page_feedback_submit_ok [OF assms(1)] by simp
qed

theorem feedback_failure_isolated_witness:
  "truthy_num (usefulness (panel
      \<lparr>home = home_initial\<lparr>result := Some \<lparr>final_decision = ''Stay'', agent_outputs = []\<rparr>\<rparr>,
       panel = feedback_initial\<lparr>usefulness := Some 3\<rparr>,
       auth_user = Some ''ada@example.org'', auth_loading = False,
       window = \<lparr>session_token = Some ''jwt'', location_href = ''/''\<rparr>\<rparr>)) \<and>
   fst (api_request (Response 500 (Json_body (Some ''Internal Server Error'') ()))
      \<lparr>session_token = Some ''jwt'', location_href = ''/''\<rparr>) = Rejected ''Internal Server Error'' \<and>
   \<not> session_expired (Response 500 (Json_body (Some ''Internal Server Error'') ())) \<and>
   result_displayed
      \<lparr>home = home_initial\<lparr>result := Some \<lparr>final_decision = ''Stay'', agent_outputs = []\<rparr>\<rparr>,
       panel = feedback_initial\<lparr>usefulness := Some 3\<rparr>,
       auth_user = Some ''ada@example.org'', auth_loading = False,
       window = \<lparr>session_token = Some ''jwt'', location_href = ''/''\<rparr>\<rparr> \<and>
   result_displayed (final (page_feedback_submit
      \<lparr>home = home_initial\<lparr>result := Some \<lparr>final_decision = ''Stay'', agent_outputs = []\<rparr>\<rparr>,
       panel = feedback_initial\<lparr>usefulness := Some 3\<rparr>,
       auth_user = Some ''ada@example.org'', auth_loading = False,
       window = \<lparr>session_token = Some ''jwt'', location_href = ''/''\<rparr>\<rparr>
      (Response 500 (Json_body (Some ''Internal Server Error'') ())))) \<and>
   warned (page_feedback_submit
      \<lparr>home = home_initial\<lparr>result := Some \<lparr>final_decision = ''Stay'', agent_outputs = []\<rparr>\<rparr>,
       panel = feedback_initial\<lparr>usefulness := Some 3\<rparr>,
       auth_user = Some ''ada@example.org'', auth_loading = False,
       window = \<lparr>session_token = Some ''jwt'', location_href = ''/''\<rparr>\<rparr>
      (Response 500 (Json_body (Some ''Internal Server Error'') ())))
     = [(''Feedback submission failed:'', ''Internal Server Error'')]"
proof -
  let ?pg = "\<lparr>home = home_initial\<lparr>result := Some \<lparr>final_decision = ''Stay'', agent_outputs = []\<rparr>\<rparr>,
       panel = feedback_initial\<lparr>usefulness := Some 3\<rparr>,
       auth_user = Some ''ada@example.org'', auth_loading = False,
       window = \<lparr>session_token = Some ''jwt'', location_href = ''/''\<rparr>\<rparr>"
  let ?x = "Response 500 (Json_body (Some ''Internal Server Error'') ()) :: unit exchange"
  have a: "truthy_num (usefulness (panel ?pg)) \<or> truthy_str (toneAlignment (panel ?pg))"
    by (simp add: truthy_num_def)
  have b: "fst (api_request ?x (window ?pg)) = Rejected ''Internal Server Error''"
    by (simp add: api_request_def)
  have c: "\<not> session_expired ?x"
    by (simp add: session_expired_def)
  have d: "result_displayed ?pg"
    by (simp add: result_displayed_def home_initial_def)
  note t = feedback_failure_isolated [OF a b c]
  from t d have "result_displayed (final (page_feedback_submit ?pg ?x))" by blast
  moreover from t have "warned (page_feedback_submit ?pg ?x)
     = [(''Feedback submission failed:'', ''Internal Server Error'')]" by blast
  moreover have "truthy_num (usefulness (panel ?pg))" by (simp add: truthy_num_def)
  moreover from b have "fst (api_request ?x \<lparr>session_token = Some ''jwt'', location_href = ''/''\<rparr>)
      = Rejected ''Internal Server Error''" by simp
  ultimately show ?thesis using c d by (intro conjI)
qed

text \<open>
  Claim C5 as stated fails: when \<open>POST /feedback\<close> is answered with status 401,
  \<open>request\<close> ends the session and sets the location to \<open>/login\<close> before it throws. The
  panel catches the error, but the decision that was displayed is no longer on screen.
\<close>

theorem expired_session_leaves_the_decision:
  "result_displayed
      \<lparr>home = home_initial\<lparr>result := Some \<lparr>final_decision = ''Stay'', agent_outputs = []\<rparr>\<rparr>,
       panel = feedback_initial\<lparr>usefulness := Some 3\<rparr>,
       auth_user = Some ''ada@example.org'', auth_loading = False,
       window = \<lparr>session_token = Some ''jwt'', location_href = ''/''\<rparr>\<rparr> \<and>
   fst (api_request (Response 401 (Json_body (Some ''Invalid token'') ()))
      \<lparr>session_token = Some ''jwt'', location_href = ''/''\<rparr>)
     = (Rejected ''Session expired. Please sign in again.'' :: unit settled) \<and>
   window (final (page_feedback_submit
      \<lparr>home = home_initial\<lparr>result := Some \<lparr>final_decision = ''Stay'', agent_outputs = []\<rparr>\<rparr>,
       panel = feedback_initial\<lparr>usefulness := Some 3\<rparr>,
       auth_user = Some ''ada@example.org'', auth_loading = False,
       window = \<lparr>session_token = Some ''jwt'', location_href = ''/''\<rparr>\<rparr>
      (Response 401 (Json_body (Some ''Invalid token'') ()))))
     = \<lparr>session_token = None, location_href = ''/login''\<rparr> \<and>
   \<not> result_displayed (final (page_feedback_submit
      \<lparr>home = home_initial\<lparr>result := Some \<lparr>final_decision = ''Stay'', agent_outputs = []\<rparr>\<rparr>,
       panel = feedback_initial\<lparr>usefulness := Some 3\<rparr>,
       auth_user = Some ''ada@example.org'', auth_loading = False,
       window = \<lparr>session_token = Some ''jwt'', location_href = ''/''\<rparr>\<rparr>
      (Response 401 (Json_body (Some ''Invalid token'') ()))))"
  by (simp add: result_displayed_def home_initial_def feedback_initial_def api_request_def
      page_feedback_submit_def feedback_handleSubmit_def truthy_num_def Let_def)

section \<open>Properties of the weight controls\<close>

lemma home_step_weights:
  "weights (final (home_step st e)) =
     (case e of Slide key v \<Rightarrow> AList.update key v (weights st) | _ \<Rightarrow> weights st)"
  by (cases e)
    (simp_all add: silent_def updateWeight_def home_handleSubmit_def home_handleToneSelect_def
      home_saveTone_def home_fetch_tone_def split: settled.split)

lemma update_nonneg:
  "\<forall>kv \<in> set al. 0 \<le> snd kv \<Longrightarrow> (0::real) \<le> v \<Longrightarrow> \<forall>kv \<in> set (AList.update k v al). 0 \<le> snd kv"
  by (induction al) auto

lemma agent_keys: "map fst agentConfig = [''ethical'', ''risk'', ''eq'', ''values'', ''red_team'']"
  by (simp add: agentConfig_def)

lemma home_reachable_weights:
  assumes "home_reachable slider st" and "\<And>v. slider v \<Longrightarrow> 0 \<le> v"
  shows "map fst (weights st) = map fst agentConfig \<and> (\<forall>kv \<in> set (weights st). 0 \<le> snd kv)"
  using assms(1)
proof (induction rule: home_reachable.induct)
  case hr_initial
  show ?case by (simp add: home_initial_def agentConfig_def)
next
  case (hr_step st e)
  show ?case
  proof (cases e)
    case (Slide key v)
    with hr_step.hyps(2) have k: "key \<in> set (map fst agentConfig)" and v: "0 \<le> v"
      using assms(2) by simp_all
    from hr_step.IH k have "map fst (AList.update key v (weights st)) = map fst agentConfig"
      by (simp add: update_keys)
    moreover from hr_step.IH v have "\<forall>kv \<in> set (AList.update key v (weights st)). 0 \<le> snd kv"
      by (intro update_nonneg) simp_all
    ultimately show ?thesis by (simp add: Slide silent_def updateWeight_def)
  qed (use hr_step.IH home_step_weights [of st e] in \<open>simp_all\<close>)
qed

lemma home_step_decision_weights:
  "Request ''POST'' ''/decision'' (Some (Decision_payload q ws)) \<in> set (sent (home_step st e))
     \<Longrightarrow> ws = weights st \<and> q = js_trim (query st) \<and> q \<noteq> []"
  by (cases e)
    (auto simp: silent_def home_handleSubmit_def home_handleToneSelect_def
      home_saveTone_def home_fetch_tone_def split: settled.splits if_splits)

text \<open>
  Claim C7. The weight object starts as the five perspective keys \<open>ethical\<close>, \<open>risk\<close>,
  \<open>eq\<close>, \<open>values\<close>, \<open>red_team\<close> at 0.2 each. In every state the page can reach its
  keys are exactly these five, in this order, and its values are non-negative as long
  as the sliders report non-negative values; every \<open>/decision\<close> request carries this
  object; and \<open>updateWeight\<close> on an existing key changes that key's value only: no key is
  added, and no call ever removes a key.
\<close>

theorem weights_over_five_keys:
  assumes "home_reachable slider st" and "\<And>v. slider v \<Longrightarrow> 0 \<le> v"
  shows "weights home_initial =
           [(''ethical'', 0.2), (''risk'', 0.2), (''eq'', 0.2), (''values'', 0.2), (''red_team'', 0.2)] \<and>
         map fst (weights st) = [''ethical'', ''risk'', ''eq'', ''values'', ''red_team''] \<and>
         (\<forall>kv \<in> set (weights st). 0 \<le> snd kv) \<and>
         (Request ''POST'' ''/decision'' (Some (Decision_payload q ws)) \<in> set (sent (home_step st e))
            \<longrightarrow> ws = weights st) \<and>
         (key \<in> set (map fst (weights st)) \<longrightarrow>
            map fst (weights (updateWeight key v st)) = map fst (weights st) \<and>
            map_of (weights (updateWeight key v st)) = (map_of (weights st))(key \<mapsto> v)) \<and>
         set (map fst (weights st)) \<subseteq> set (map fst (weights (updateWeight key' v' st)))"
proof -
  have "weights home_initial =
      [(''ethical'', 0.2), (''risk'', 0.2), (''eq'', 0.2), (''values'', 0.2), (''red_team'', 0.2)]"
    by (simp add: home_initial_def)
  moreover from home_reachable_weights [OF assms]
  have "map fst (weights st) = [''ethical'', ''risk'', ''eq'', ''values'', ''red_team'']"
    and "\<forall>kv \<in> set (weights st). 0 \<le> snd kv"
    by (simp_all add: agent_keys)
  moreover have "Request ''POST'' ''/decision'' (Some (Decision_payload q ws)) \<in> set (sent (home_step st e))
            \<longrightarrow> ws = weights st"
    using home_step_decision_weights by blast
  moreover have "key \<in> set (map fst (weights st)) \<longrightarrow>
            map fst (weights (updateWeight key v st)) = map fst (weights st) \<and>
            map_of (weights (updateWeight key v st)) = (map_of (weights st))(key \<mapsto> v)"
    by (simp add: updateWeight_def update_keys update_conv')
  moreover have "set (map fst (weights st)) \<subseteq> set (map fst (weights (updateWeight key' v' st)))"
    by (auto simp: updateWeight_def update_keys)
  ultimately show ?thesis by blast
qed

theorem weights_over_five_keys_witness:
  "home_reachable (\<lambda>v. 0 \<le> v \<and> v \<le> 1) (final (home_step home_initial (Slide ''risk'' 0.5))) \<and>
   map fst (weights (final (home_step home_initial (Slide ''risk'' 0.5))))
     = [''ethical'', ''risk'', ''eq'', ''values'', ''red_team''] \<and>
   weights (final (home_step home_initial (Slide ''risk'' 0.5)))
     = [(''ethical'', 0.2), (''risk'', 0.5), (''eq'', 0.2), (''values'', 0.2), (''red_team'', 0.2)]"
proof -
  have r: "home_reachable (\<lambda>v. 0 \<le> v \<and> v \<le> 1) (final (home_step home_initial (Slide ''risk'' 0.5)))"
    by (rule hr_step [OF hr_initial]) (simp add: agentConfig_def)
  have s: "\<And>v::real. 0 \<le> v \<and> v \<le> 1 \<Longrightarrow> 0 \<le> v" by simp
  from weights_over_five_keys [OF r s] r show ?thesis
    by (simp add: silent_def updateWeight_def home_initial_def)
qed

section \<open>Properties of the tone selection\<close>

lemma home_select_warns:
  "newTone = ''blunt_profane'' \<Longrightarrow> currentTone st \<noteq> JStr ''blunt_profane'' \<Longrightarrow>
     home_handleToneSelect newTone st reply = silent (st\<lparr>showProfanityWarning := True\<rparr>)"
  by (simp add: home_handleToneSelect_def silent_def)

lemma modal_select_warns:
  "newTone = ''blunt_profane'' \<Longrightarrow> tone st \<noteq> JStr ''blunt_profane'' \<Longrightarrow>
     modal_handleToneSelect newTone st reply = silent (st\<lparr>modal_showProfanityWarning := True\<rparr>)"
  by (simp add: modal_handleToneSelect_def)

lemma home_save_origin:
  assumes "saves_tone ''blunt_profane'' (home_step st e)"
  shows "(\<exists>reply. e = Confirm_profanity reply) \<or>
         (\<exists>reply. e = Select_tone ''blunt_profane'' reply \<and> currentTone st = JStr ''blunt_profane'')"
proof (cases e)
  case (Select_tone t reply)
  with assms show ?thesis
    by (auto simp: saves_tone_def home_handleToneSelect_def home_saveTone_def
        split: if_splits settled.splits)
next
  case (Submit reply)
  with assms show ?thesis
    by (auto simp: saves_tone_def home_handleSubmit_def split: if_splits settled.splits)
next
  case (Tone_fetched user reply)
  with assms show ?thesis
    by (auto simp: saves_tone_def home_fetch_tone_def split: if_splits settled.splits)
qed (use assms in \<open>simp_all add: saves_tone_def silent_def\<close>)

lemma modal_save_origin:
  assumes "saves_tone ''blunt_profane'' (modal_step st e)"
  shows "(\<exists>reply. e = Modal_confirm_profanity reply) \<or>
         (\<exists>reply. e = Modal_select ''blunt_profane'' reply \<and> tone st = JStr ''blunt_profane'')"
proof (cases e)
  case (Modal_select t reply)
  with assms show ?thesis
    by (auto simp: saves_tone_def modal_handleToneSelect_def modal_saveTone_def silent_def
        split: if_splits settled.splits)
next
  case (Modal_opened isOpen reply)
  with assms show ?thesis
    by (auto simp: saves_tone_def modal_fetch_tone_def silent_def split: if_splits settled.splits)
qed (use assms in \<open>simp_all add: saves_tone_def silent_def\<close>)

text \<open>
  Claim C6, amended. Selecting \<open>blunt_profane\<close> while another tone is current issues no
  save request and shows the confirmation warning, on the page and in the modal alike.
  A save that carries \<open>blunt_profane\<close> comes from the warning's confirm button, or from
  selecting \<open>blunt_profane\<close> while it already is the current tone.
\<close>

theorem unfiltered_tone_needs_confirmation:
  "(currentTone st \<noteq> JStr ''blunt_profane'' \<longrightarrow>
      home_handleToneSelect ''blunt_profane'' st reply = silent (st\<lparr>showProfanityWarning := True\<rparr>)) \<and>
   (tone mst \<noteq> JStr ''blunt_profane'' \<longrightarrow>
      modal_handleToneSelect ''blunt_profane'' mst reply =
        silent (mst\<lparr>modal_showProfanityWarning := True\<rparr>)) \<and>
   (saves_tone ''blunt_profane'' (home_step st e) \<longrightarrow>
      (\<exists>r. e = Confirm_profanity r) \<or>
      (\<exists>r. e = Select_tone ''blunt_profane'' r \<and> currentTone st = JStr ''blunt_profane'')) \<and>
   (saves_tone ''blunt_profane'' (modal_step mst me) \<longrightarrow>
      (\<exists>r. me = Modal_confirm_profanity r) \<or>
      (\<exists>r. me = Modal_select ''blunt_profane'' r \<and> tone mst = JStr ''blunt_profane''))"
proof (intro conjI impI)
  assume "currentTone st \<noteq> JStr ''blunt_profane''"
  then show "home_handleToneSelect ''blunt_profane'' st reply = silent (st\<lparr>showProfanityWarning := True\<rparr>)"
    by (rule home_select_warns [OF refl])
next
  assume "tone mst \<noteq> JStr ''blunt_profane''"
  then show "modal_handleToneSelect ''blunt_profane'' mst reply =
        silent (mst\<lparr>modal_showProfanityWarning := True\<rparr>)"
    by (rule modal_select_warns [OF refl])
next
  assume "saves_tone ''blunt_profane'' (home_step st e)"
  then show "(\<exists>r. e = Confirm_profanity r) \<or>
      (\<exists>r. e = Select_tone ''blunt_profane'' r \<and> currentTone st = JStr ''blunt_profane'')"
    by (rule home_save_origin)
next
  assume "saves_tone ''blunt_profane'' (modal_step mst me)"
  then show "(\<exists>r. me = Modal_confirm_profanity r) \<or>
      (\<exists>r. me = Modal_select ''blunt_profane'' r \<and> tone mst = JStr ''blunt_profane'')"
    by (rule modal_save_origin)
qed

theorem unfiltered_tone_needs_confirmation_witness:
  "currentTone home_initial \<noteq> JStr ''blunt_profane'' \<and>
   home_handleToneSelect ''blunt_profane'' home_initial (Rejected ''x'')
     = silent (home_initial\<lparr>showProfanityWarning := True\<rparr>) \<and>
   tone modal_initial \<noteq> JStr ''blunt_profane'' \<and>
   modal_handleToneSelect ''blunt_profane'' modal_initial (Rejected ''x'')
     = silent (modal_initial\<lparr>modal_showProfanityWarning := True\<rparr>) \<and>
   saves_tone ''blunt_profane'' (home_step home_initial (Confirm_profanity (Rejected ''x''))) \<and>
   saves_tone ''blunt_profane'' (modal_step modal_initial (Modal_confirm_profanity (Rejected ''x'')))"
proof -
  note t = unfiltered_tone_needs_confirmation
    [where st = home_initial and mst = modal_initial and reply = "Rejected ''x''"
       and e = "Confirm_profanity (Rejected ''x'')"
       and me = "Modal_confirm_profanity (Rejected ''x'')"]
  have a: "currentTone home_initial \<noteq> JStr ''blunt_profane''"
    by (simp add: home_initial_def)
  have b: "tone modal_initial \<noteq> JStr ''blunt_profane''"
    by (simp add: modal_initial_def)
  have c: "saves_tone ''blunt_profane'' (home_step home_initial (Confirm_profanity (Rejected ''x'')))"
    by (simp add: saves_tone_def home_saveTone_def)
  have d: "saves_tone ''blunt_profane'' (modal_step modal_initial (Modal_confirm_profanity (Rejected ''x'')))"
    by (simp add: saves_tone_def modal_saveTone_def)
  from t a have "home_handleToneSelect ''blunt_profane'' home_initial (Rejected ''x'')
     = silent (home_initial\<lparr>showProfanityWarning := True\<rparr>)"
    by (elim conjE) (erule mp)
  moreover from t b have "modal_handleToneSelect ''blunt_profane'' modal_initial (Rejected ''x'')
     = silent (modal_initial\<lparr>modal_showProfanityWarning := True\<rparr>)"
    by (elim conjE) (erule mp)
  ultimately show ?thesis using a b c d by (intro conjI)
qed

text \<open>
  Claim C6 as stated fails: once the stored preference that the page or the modal
  fetched is \<open>blunt_profane\<close>, clicking that tone again goes straight to \<open>saveTone\<close>, so
  a save carrying \<open>blunt_profane\<close> is issued by the selection handler and not by the
  warning's confirm button.
\<close>

theorem reselecting_unfiltered_saves_it:
  "saves_tone ''blunt_profane''
     (home_step
        (final (home_step home_initial
           (Tone_fetched True (Resolved \<lparr>tone_preference = JStr ''blunt_profane''\<rparr>))))
        (Select_tone ''blunt_profane'' (Resolved \<lparr>conflict = JUndefined, message = JUndefined\<rparr>))) \<and>
   saves_tone ''blunt_profane''
     (modal_step
        (final (modal_step modal_initial
           (Modal_opened True (Resolved \<lparr>tone_preference = JStr ''blunt_profane''\<rparr>))))
        (Modal_select ''blunt_profane'' (Resolved \<lparr>conflict = JUndefined, message = JUndefined\<rparr>)))"
  by (simp add: saves_tone_def home_fetch_tone_def home_handleToneSelect_def home_saveTone_def
      modal_fetch_tone_def modal_handleToneSelect_def modal_saveTone_def js_or_def)

text \<open>
  Claim C10, amended. When the \<open>GET /preferences\<close> reply carries no \<open>tone_preference\<close>
  (missing, \<open>null\<close> or the empty string), the active tone becomes \<open>'clean'\<close>, on the page
  and in the modal alike. When the request fails, the active tone keeps the value it
  had, which is \<open>'clean'\<close> in the initial state of either component.
\<close>

theorem tone_defaults_to_clean:
  "(tone_preference data \<in> {JUndefined, JNull, JStr []} \<longrightarrow>
      currentTone (final (home_fetch_tone True st (Resolved data))) = JStr ''clean'' \<and>
      tone (final (modal_fetch_tone True mst (Resolved data))) = JStr ''clean'') \<and>
   currentTone (final (home_fetch_tone True st (Rejected m))) = currentTone st \<and>
   tone (final (modal_fetch_tone True mst (Rejected m))) = tone mst \<and>
   currentTone (final (home_fetch_tone True home_initial (Rejected m))) = JStr ''clean'' \<and>
   tone (final (modal_fetch_tone True modal_initial (Rejected m))) = JStr ''clean''"
  by (auto simp: home_fetch_tone_def modal_fetch_tone_def js_or_def home_initial_def
      modal_initial_def)

theorem tone_defaults_to_clean_witness:
  "tone_preference \<lparr>tone_preference = JNull\<rparr> \<in> {JUndefined, JNull, JStr []} \<and>
   currentTone (final (home_fetch_tone True (home_initial\<lparr>currentTone := JStr ''blunt''\<rparr>)
      (Resolved \<lparr>tone_preference = JNull\<rparr>))) = JStr ''clean'' \<and>
   tone (final (modal_fetch_tone True (modal_initial\<lparr>tone := JStr ''blunt''\<rparr>)
      (Resolved \<lparr>tone_preference = JNull\<rparr>))) = JStr ''clean''"
  using tone_defaults_to_clean
    [where data = "\<lparr>tone_preference = JNull\<rparr>"
       and st = "home_initial\<lparr>currentTone := JStr ''blunt''\<rparr>"
       and mst = "modal_initial\<lparr>tone := JStr ''blunt''\<rparr>"]
  by simp

text \<open>
  Claim C10 as stated fails: after \<open>'blunt'\<close> has been saved, a fetch that fails (the
  modal reopened, the page's effect run again) leaves the active tone at \<open>'blunt'\<close>, not
  at \<open>'clean'\<close>.
\<close>

theorem failed_fetch_keeps_tone:
  "tone (final (modal_step
      (final (modal_step modal_initial
         (Modal_select ''blunt'' (Resolved \<lparr>conflict = JUndefined, message = JUndefined\<rparr>))))
      (Modal_opened True (Rejected ''Failed to fetch'')))) \<noteq> JStr ''clean'' \<and>
   currentTone (final (home_step
      (final (home_step home_initial
         (Select_tone ''blunt'' (Resolved \<lparr>conflict = JUndefined, message = JUndefined\<rparr>))))
      (Tone_fetched True (Rejected ''Failed to fetch'')))) \<noteq> JStr ''clean''"
  by (simp add: modal_handleToneSelect_def modal_saveTone_def modal_fetch_tone_def
      home_handleToneSelect_def home_saveTone_def home_fetch_tone_def)

section \<open>Properties of the decision request\<close>

lemma home_empty_query_silent:
  "js_trim (query st) = [] \<Longrightarrow> home_handleSubmit st reply = silent st \<and> home_submit_disabled st"
  by (simp add: home_handleSubmit_def silent_def home_submit_disabled_def)

lemma home_sent_query_nonempty:
  "Request ''POST'' ''/decision'' (Some (Decision_payload q ws)) \<in> set (sent (home_handleSubmit st reply))
     \<Longrightarrow> q = js_trim (query st) \<and> q \<noteq> []"
  by (auto simp: home_handleSubmit_def split: if_splits settled.splits)

text \<open>
  Claim C8. When the trimmed query is empty, \<open>handleSubmit\<close> of the page returns without
  a \<open>/decision\<close> request and leaves the whole state, \<open>result\<close> and \<open>error\<close> included, as
  it was, and the submit button is disabled. Every \<open>/decision\<close> request the page sends
  carries a non-empty query. On the engine's side a decision request with an empty
  query fails with \<open>ValidationError\<close>.
\<close>

theorem empty_query_not_submitted:
  "(js_trim (query st) = [] \<longrightarrow>
      home_handleSubmit st reply = silent st \<and>
      result (final (home_handleSubmit st reply)) = result st \<and>
      error (final (home_handleSubmit st reply)) = error st \<and>
      home_submit_disabled st) \<and>
   (Request ''POST'' ''/decision'' (Some (Decision_payload q ws))
      \<in> set (sent (home_handleSubmit st reply)) \<longrightarrow> q \<noteq> []) \<and>
   decision [] w outs = Inl ValidationError"
proof -
  have "js_trim (query st) = [] \<longrightarrow>
      home_handleSubmit st reply = silent st \<and>
      result (final (home_handleSubmit st reply)) = result st \<and>
      error (final (home_handleSubmit st reply)) = error st \<and>
      home_submit_disabled st"
    by (simp add: home_empty_query_silent silent_def)
  moreover have "Request ''POST'' ''/decision'' (Some (Decision_payload q ws))
      \<in> set (sent (home_handleSubmit st reply)) \<longrightarrow> q \<noteq> []"
    using home_sent_query_nonempty by blast
  moreover have "decision [] w outs = Inl ValidationError"
    by (simp add: decision_def)
  ultimately show ?thesis by blast
qed

theorem empty_query_not_submitted_witness:
  "js_trim (query (home_initial\<lparr>query := ''  ''\<rparr>)) = [] \<and>
   sent (home_handleSubmit (home_initial\<lparr>query := ''  ''\<rparr>) (Rejected ''x'')) = [] \<and>
   final (home_handleSubmit (home_initial\<lparr>query := ''  ''\<rparr>) (Rejected ''x'')) = home_initial\<lparr>query := ''  ''\<rparr> \<and>
   home_submit_disabled (home_initial\<lparr>query := ''  ''\<rparr>) \<and>
   Request ''POST'' ''/decision'' (Some (Decision_payload ''go'' (weights home_initial)))
      \<in> set (sent (home_handleSubmit (home_initial\<lparr>query := '' go ''\<rparr>) (Rejected ''x'')))"
  using empty_query_not_submitted
      [where st = "home_initial\<lparr>query := ''  ''\<rparr>" and reply = "Rejected ''x''"]
    empty_query_not_submitted
      [where st = "home_initial\<lparr>query := '' go ''\<rparr>" and reply = "Rejected ''x''"
         and q = "''go''" and ws = "weights home_initial"]
  by (simp add: js_trim_def is_js_space_def silent_def home_handleSubmit_def home_initial_def)

section \<open>Properties of a contradicted preference change\<close>

lemma set_conflict_unconfirmed:
  "verdict_conflict (check (memory st) newTone) \<Longrightarrow>
     PreferenceStore_set check upsert now st newTone False
       = (Set_conflict (verdict_message (check (memory st) newTone)), st)"
  by (simp add: PreferenceStore_set_def Let_def)

lemma set_confirmed_commits:
  "fst (PreferenceStore_set check upsert now st newTone True) = Set_success \<and>
   tonePreference (preference (snd (PreferenceStore_set check upsert now st newTone True))) = newTone"
  by (simp add: PreferenceStore_set_def Let_def)

lemma modal_saveTone_conflict:
  "truthy (conflict r) \<Longrightarrow>
     final (modal_saveTone t c mst (Resolved r))
       = mst\<lparr>saving := False, modal_error := message r, saved := False\<rparr>"
  by (simp add: modal_saveTone_def)

lemma modal_saveTone_sent:
  "sent (modal_saveTone t c mst reply)
     = [Request ''PUT'' ''/preferences'' (Some (Preferences_payload t c))]"
  by (simp add: modal_saveTone_def split: settled.split)

lemma home_saveTone_sent:
  "sent (home_saveTone t hst reply)
     = [Request ''PUT'' ''/preferences'' (Some (Preferences_payload t True))]"
  by (simp add: home_saveTone_def split: settled.split)

text \<open>
  Claim C3. A preference change that meets a conflict without confirmation returns the
  conflict verdict and leaves the user's state as it was. The modal's \<open>saveTone\<close>, on
  a reply \<open>{conflict: true, message}\<close>, keeps the selected tone and shows the message.
  The same change with \<open>confirm_contradiction\<close> set commits. The modal's selection
  handler saves without confirmation; the page's \<open>saveTone\<close> always sends
  \<open>confirm_contradiction: true\<close>, so a conflict verdict is never the answer to it.
\<close>

theorem conflict_without_confirmation_changes_nothing:
  "(verdict_conflict (check (memory st) newTone) \<longrightarrow>
      PreferenceStore_set check upsert now st newTone False
        = (Set_conflict (verdict_message (check (memory st) newTone)), st)) \<and>
   final (modal_saveTone t c mst (Resolved (conflict_body msg)))
     = mst\<lparr>saving := False, modal_error := JStr msg, saved := False\<rparr> \<and>
   tone (final (modal_saveTone t c mst (Resolved (conflict_body msg)))) = tone mst \<and>
   fst (PreferenceStore_set check upsert now st newTone True) = Set_success \<and>
   tonePreference (preference (snd (PreferenceStore_set check upsert now st newTone True))) = newTone \<and>
   sent (modal_handleToneSelect t mst reply) \<in>
     {[], [Request ''PUT'' ''/preferences'' (Some (Preferences_payload t False))]} \<and>
   sent (home_saveTone t hst reply')
     = [Request ''PUT'' ''/preferences'' (Some (Preferences_payload t True))]"
proof -
  have m: "final (modal_saveTone t c mst (Resolved (conflict_body msg)))
     = mst\<lparr>saving := False, modal_error := JStr msg, saved := False\<rparr>"
    using modal_saveTone_conflict [of "conflict_body msg" t c mst]
    by (simp add: conflict_body_def)
  have s: "sent (modal_handleToneSelect t mst reply) \<in>
     {[], [Request ''PUT'' ''/preferences'' (Some (Preferences_payload t False))]}"
    by (simp add: modal_handleToneSelect_def modal_saveTone_sent silent_def)
  show ?thesis
    using set_conflict_unconfirmed [of check st newTone upsert now]
      set_confirmed_commits [of check upsert now st newTone] m s
      home_saveTone_sent [of t hst reply']
    by simp
qed

theorem conflict_without_confirmation_changes_nothing_witness:
  "verdict_conflict ((\<lambda>m t. \<lparr>verdict_conflict = True, verdict_message = ''dislikes harsh language''\<rparr>)
      (memory \<lparr>preference = \<lparr>tonePreference = Clean, updatedAt = 0, history = []\<rparr>, memory = ()\<rparr>)
      Blunt_profane) \<and>
   PreferenceStore_set (\<lambda>m t. \<lparr>verdict_conflict = True, verdict_message = ''dislikes harsh language''\<rparr>)
      (\<lambda>t now m. m) 5
      \<lparr>preference = \<lparr>tonePreference = Clean, updatedAt = 0, history = []\<rparr>, memory = ()\<rparr>
      Blunt_profane False
     = (Set_conflict ''dislikes harsh language'',
        \<lparr>preference = \<lparr>tonePreference = Clean, updatedAt = 0, history = []\<rparr>, memory = ()\<rparr>) \<and>
   tonePreference (preference (snd (PreferenceStore_set
      (\<lambda>m t. \<lparr>verdict_conflict = True, verdict_message = ''dislikes harsh language''\<rparr>)
      (\<lambda>t now m. m) 5
      \<lparr>preference = \<lparr>tonePreference = Clean, updatedAt = 0, history = []\<rparr>, memory = ()\<rparr>
      Blunt_profane True))) = Blunt_profane"
proof -
  let ?check = "\<lambda>(m::unit) (t::tone_value). \<lparr>verdict_conflict = True, verdict_message = ''dislikes harsh language''\<rparr>"
  let ?st = "\<lparr>preference = \<lparr>tonePreference = Clean, updatedAt = 0, history = []\<rparr>, memory = ()\<rparr>"
  have c: "verdict_conflict (?check (memory ?st) Blunt_profane)" by simp
  note t = conflict_without_confirmation_changes_nothing
    [where check = ?check and st = ?st and newTone = Blunt_profane and upsert = "\<lambda>t now m. m"
       and now = 5]
  from t [THEN conjunct1] have "PreferenceStore_set ?check (\<lambda>t now m. m) 5 ?st Blunt_profane False
     = (Set_conflict ''dislikes harsh language'', ?st)"
    by simp
  moreover from t have "tonePreference (preference (snd (PreferenceStore_set ?check
      (\<lambda>t now m. m) 5 ?st Blunt_profane True))) = Blunt_profane"
    by simp
  ultimately show ?thesis using c by simp
qed

section \<open>Properties of the decay\<close>

lemma applyDecay_unfloored:
  "0 \<le> confidence0 m \<Longrightarrow>
     applyDecay m t = confidence0 m * exp (- decayRate m * (t - lastReinforcedAt m))"
  by (simp add: applyDecay_def)

lemma applyDecay_mono:
  assumes "0 \<le> confidence0 m" "0 < decayRate m" "t1 \<le> t2"
  shows "applyDecay m t2 \<le> applyDecay m t1"
proof -
  from assms(2,3) have "decayRate m * (t1 - lastReinforcedAt m) \<le> decayRate m * (t2 - lastReinforcedAt m)"
    by (intro mult_left_mono) simp_all
  then have "exp (- decayRate m * (t2 - lastReinforcedAt m)) \<le> exp (- decayRate m * (t1 - lastReinforcedAt m))"
    by simp
  with assms(1) have "confidence0 m * exp (- decayRate m * (t2 - lastReinforcedAt m))
      \<le> confidence0 m * exp (- decayRate m * (t1 - lastReinforcedAt m))"
    by (rule mult_left_mono [rotated])
  then show ?thesis by (simp only: applyDecay_unfloored [OF assms(1)])
qed

lemma applyDecay_range:
  assumes "0 \<le> confidence0 m" "confidence0 m \<le> 1" "0 < decayRate m" "lastReinforcedAt m \<le> t"
  shows "0 \<le> applyDecay m t \<and> applyDecay m t \<le> 1"
proof -
  from assms(3,4) have "0 \<le> decayRate m * (t - lastReinforcedAt m)" by simp
  then have e: "exp (- decayRate m * (t - lastReinforcedAt m)) \<le> 1" by simp
  have "confidence0 m * exp (- decayRate m * (t - lastReinforcedAt m)) \<le> 1 * 1"
    using assms(1,2) e by (intro mult_mono) simp_all
  then show ?thesis by (simp add: applyDecay_def)
qed

text \<open>
  Claim C2. For a memory item within the data model's bounds, read at a time \<open>t\<close> not
  before its last reinforcement, the decayed confidence is
  \<open>confidence\<^sub>0 \<cdot> e^(-decayRate \<cdot> (t - lastReinforcedAt))\<close> (the floor at 0 is never
  reached), it does not increase as \<open>t\<close> grows, and it lies in \<open>[0,1]\<close>.
\<close>

theorem decayed_confidence_bounded_and_decreasing:
  assumes "memory_item_ok m" and "lastReinforcedAt m \<le> t1" and "t1 \<le> t2"
  shows "applyDecay m t2 = confidence0 m * exp (- decayRate m * (t2 - lastReinforcedAt m)) \<and>
         applyDecay m t2 \<le> applyDecay m t1 \<and>
         0 \<le> applyDecay m t2 \<and> applyDecay m t2 \<le> 1"
proof -
  from assms(1) have c: "0 \<le> confidence0 m" "confidence0 m \<le> 1" and r: "0 < decayRate m"
    by (simp_all add: memory_item_ok_def)
  from assms(2,3) have t: "lastReinforcedAt m \<le> t2" by simp
  show ?thesis
    using applyDecay_unfloored [OF c(1)] applyDecay_mono [OF c(1) r assms(3)]
      applyDecay_range [OF c r t] by simp
qed

theorem decayed_confidence_bounded_and_decreasing_witness:
  "memory_item_ok \<lparr>item_id = 1, userId = ''u'', item_category = Preference, content = ''tone:clean'',
      confidence0 = 0.8, createdAt = 0, lastReinforcedAt = 0, decayRate = 0.1\<rparr> \<and>
   applyDecay \<lparr>item_id = 1, userId = ''u'', item_category = Preference, content = ''tone:clean'',
      confidence0 = 0.8, createdAt = 0, lastReinforcedAt = 0, decayRate = 0.1\<rparr> 10
     \<le> applyDecay \<lparr>item_id = 1, userId = ''u'', item_category = Preference, content = ''tone:clean'',
      confidence0 = 0.8, createdAt = 0, lastReinforcedAt = 0, decayRate = 0.1\<rparr> 0 \<and>
   applyDecay \<lparr>item_id = 1, userId = ''u'', item_category = Preference, content = ''tone:clean'',
      confidence0 = 0.8, createdAt = 0, lastReinforcedAt = 0, decayRate = 0.1\<rparr> 0 = 0.8"
proof -
  let ?m = "\<lparr>item_id = 1, userId = ''u'', item_category = Preference, content = ''tone:clean'',
      confidence0 = 0.8, createdAt = 0, lastReinforcedAt = 0, decayRate = 0.1\<rparr>"
  have ok: "memory_item_ok ?m" by (simp add: memory_item_ok_def)
  have a: "lastReinforcedAt ?m \<le> 0" by simp
  have b: "(0::real) \<le> 10" by simp
  have z: "applyDecay ?m 0 = 0.8" by (simp add: applyDecay_def)
  from decayed_confidence_bounded_and_decreasing [OF ok a b] ok z show ?thesis by blast
qed


section \<open>Properties of the renormalisation\<close>

lemma sum_list_divide:
  "sum_list (map (\<lambda>p. f p / c) xs) = sum_list (map f xs) / (c::real)"
  by (induction xs) (simp_all add: add_divide_distrib)

lemma sum_list_filter_le:
  "\<forall>x \<in> set xs. (0::real) \<le> f x \<Longrightarrow> sum_list (map f (filter P xs)) \<le> sum_list (map f xs)"
  by (induction xs) (auto simp: add_increasing)

lemma succeeded_empty: "succeeded outs = [] \<longleftrightarrow> (\<forall>p. outs p = None)"
proof
  assume "succeeded outs = []"
  then have "\<forall>p \<in> set perspectives. outs p = None"
    by (simp add: succeeded_def filter_empty_conv)
  moreover have "p \<in> set perspectives" for p
    by (cases p) (simp_all add: perspectives_def)
  ultimately show "\<forall>p. outs p = None" by blast
next
  assume "\<forall>p. outs p = None"
  then show "succeeded outs = []" by (simp add: succeeded_def)
qed

lemma renormalize_sums_to_one:
  assumes "surviving_total n outs \<noteq> 0"
  shows "\<exists>ws. renormalize n outs = Some ws \<and> sum_list (map snd ws) = 1"
proof -
  have "sum_list (map snd (map (\<lambda>p. (p, n p / surviving_total n outs)) (succeeded outs)))
      = sum_list (map (\<lambda>p. n p / surviving_total n outs) (succeeded outs))"
    by (simp add: comp_def)
  also have "\<dots> = surviving_total n outs / surviving_total n outs"
    by (simp add: sum_list_divide surviving_total_def)
  also have "\<dots> = 1" using assms by simp
  finally show ?thesis using assms by (simp add: renormalize_def)
qed

lemma normalize_surviving:
  assumes "\<not> weights_malformed w" and "0 < surviving_total w outs"
  shows "\<exists>n. normalize w = Some n \<and> surviving_total n outs \<noteq> 0"
proof -
  from assms(1) have nn: "\<forall>p \<in> set perspectives. 0 \<le> w p"
    by (auto simp: weights_malformed_def not_less)
  have "surviving_total w outs \<le> sum_list (map w perspectives)"
    unfolding surviving_total_def succeeded_def by (rule sum_list_filter_le [OF nn])
  with assms(2) have T: "0 < sum_list (map w perspectives)" by simp
  have "surviving_total (\<lambda>p. w p / sum_list (map w perspectives)) outs
      = surviving_total w outs / sum_list (map w perspectives)"
    by (simp add: surviving_total_def sum_list_divide)
  with T assms(2) show ?thesis by (simp add: normalize_def)
qed

text \<open>
  Claim C1, amended. For a valid decision request (a non-empty query, no negative
  weight) in which the perspectives that succeeded carry a positive total weight, the
  weights renormalised over the successful perspectives sum to 1. When all five calls
  fail, the request fails with \<open>UpstreamError\<close>.
\<close>

theorem renormalized_weights_sum_to_one:
  assumes "q \<noteq> []" and "\<not> weights_malformed w"
  shows "(0 < surviving_total w outs \<longrightarrow> renormalized_sum (decision q w outs) = Some 1) \<and>
         ((\<forall>p. outs p = None) \<longrightarrow> decision q w outs = Inl UpstreamError)"
proof (intro conjI impI)
  assume pos: "0 < surviving_total w outs"
  then have ne: "succeeded outs \<noteq> []" by (auto simp: surviving_total_def)
  from normalize_surviving [OF assms(2) pos]
  obtain n where n: "normalize w = Some n" "surviving_total n outs \<noteq> 0" by blast
  from renormalize_sums_to_one [OF n(2)]
  obtain ws where ws: "renormalize n outs = Some ws" "sum_list (map snd ws) = 1" by blast
  show "renormalized_sum (decision q w outs) = Some 1"
    using assms ne n(1) ws by (simp add: decision_def renormalized_sum_def)
next
  assume "\<forall>p. outs p = None"
  then have "succeeded outs = []" by (simp add: succeeded_empty)
  then show "decision q w outs = Inl UpstreamError"
    using assms by (simp add: decision_def)
qed

theorem renormalized_weights_sum_to_one_witness:
  "''q'' \<noteq> [] \<and> \<not> weights_malformed (weight_vector_of 0.2 0.2 0.2 0.2 0.2) \<and>
   0 < surviving_total (weight_vector_of 0.2 0.2 0.2 0.2 0.2)
         (agent_results_of (Some ''a'') (Some ''b'') (Some ''c'') (Some ''d'') None) \<and>
   renormalized_sum (decision ''q'' (weight_vector_of 0.2 0.2 0.2 0.2 0.2)
         (agent_results_of (Some ''a'') (Some ''b'') (Some ''c'') (Some ''d'') None)) = Some 1 \<and>
   decision ''q'' (weight_vector_of 0.2 0.2 0.2 0.2 0.2)
         (agent_results_of None None None None None) = Inl UpstreamError"
proof -
  have q: "''q'' \<noteq> []" by simp
  have w: "\<not> weights_malformed (weight_vector_of 0.2 0.2 0.2 0.2 0.2)"
    by (simp add: weights_malformed_def perspectives_def)
  have s: "0 < surviving_total (weight_vector_of 0.2 0.2 0.2 0.2 0.2)
         (agent_results_of (Some ''a'') (Some ''b'') (Some ''c'') (Some ''d'') None)"
    by (simp add: surviving_total_def succeeded_def perspectives_def)
  have f: "\<forall>p. agent_results_of None None None None None p = None"
  proof
    fix p show "agent_results_of None None None None None p = None" by (cases p) simp_all
  qed
  note t1 = renormalized_weights_sum_to_one [OF q w,
      of "agent_results_of (Some ''a'') (Some ''b'') (Some ''c'') (Some ''d'') None"]
  note t2 = renormalized_weights_sum_to_one [OF q w, of "agent_results_of None None None None None"]
  from t1 s have "renormalized_sum (decision ''q'' (weight_vector_of 0.2 0.2 0.2 0.2 0.2)
         (agent_results_of (Some ''a'') (Some ''b'') (Some ''c'') (Some ''d'') None)) = Some 1"
    by (elim conjE) (erule mp)
  moreover from t2 f have "decision ''q'' (weight_vector_of 0.2 0.2 0.2 0.2 0.2)
         (agent_results_of None None None None None) = Inl UpstreamError"
    by (elim conjE) (erule mp)
  ultimately show ?thesis using q w s by (intro conjI)
qed

text \<open>
  Claim C1 as stated fails: with the weights \<open>{ethical: 1}\<close> and all others 0, and the
  \<open>ethical\<close> call the only one to fail, four perspectives succeed but their weights sum
  to 0, so dividing by that sum gives no vector that sums to 1.
\<close>

theorem zero_weight_survivors_have_no_renormalization:
  "succeeded (agent_results_of None (Some ''b'') (Some ''c'') (Some ''d'') (Some ''e'')) \<noteq> [] \<and>
   \<not> weights_malformed (weight_vector_of 1 0 0 0 0) \<and>
   surviving_total (weight_vector_of 1 0 0 0 0)
      (agent_results_of None (Some ''b'') (Some ''c'') (Some ''d'') (Some ''e'')) = 0 \<and>
   renormalized_sum (decision ''q'' (weight_vector_of 1 0 0 0 0)
      (agent_results_of None (Some ''b'') (Some ''c'') (Some ''d'') (Some ''e''))) \<noteq> Some 1"
  by (simp add: succeeded_def perspectives_def weights_malformed_def decision_def
      renormalized_sum_def normalize_def renormalize_def surviving_total_def)

end
